theory Spec2Isabelle
  imports Complex_Main "HOL-Library.Multiset"
begin

section \<open>Python string primitives used by the postal-code code\<close>

text \<open>
  A string is a list of characters with code points 0 to 255. On that range the regular
  expression \<^verbatim>\<open>\d\<close> matches \<open>0\<close> .. \<open>9\<close> only, \<^verbatim>\<open>str.isdigit\<close> is also true of the
  superscript digits U+00B2, U+00B3 and U+00B9, \<^verbatim>\<open>str.strip\<close> also removes U+0085 and
  U+00A0, and \<^verbatim>\<open>str.lower\<close> also lowers U+00C0 .. U+00DE except U+00D7.
\<close>

text \<open>What \<^verbatim>\<open>\d\<close> matches.\<close>

definition isdigit_char :: "char \<Rightarrow> bool" where
  "isdigit_char c = (c \<in> set ''0123456789'')"

text \<open>\<^verbatim>\<open>c.isdigit()\<close> on one character.\<close>

definition py_isdigit_char :: "char \<Rightarrow> bool" where
  "py_isdigit_char c = (isdigit_char c \<or> c \<in> {CHR 0xB2, CHR 0xB3, CHR 0xB9})"

text \<open>\<^verbatim>\<open>s.isdigit()\<close>: false on the empty string, as in Python.\<close>

definition str_isdigit :: "string \<Rightarrow> bool" where
  "str_isdigit s = (s \<noteq> [] \<and> list_all py_isdigit_char s)"

definition isspace_char :: "char \<Rightarrow> bool" where
  "isspace_char c =
     (c \<in> {CHR '' '', CHR 0x09, CHR 0x0A, CHR 0x0B, CHR 0x0C, CHR 0x0D,
            CHR 0x1C, CHR 0x1D, CHR 0x1E, CHR 0x1F, CHR 0x85, CHR 0xA0})"

definition str_strip :: "string \<Rightarrow> string" where
  "str_strip s = rev (dropWhile isspace_char (rev (dropWhile isspace_char s)))"

definition lower_char :: "char \<Rightarrow> char" where
  "lower_char c =
     (let n = (of_char c :: nat)
      in if (65 \<le> n \<and> n \<le> 90) \<or> (192 \<le> n \<and> n \<le> 222 \<and> n \<noteq> 215)
         then char_of (n + 32)
         else c)"

definition str_lower :: "string \<Rightarrow> string" where
  "str_lower s = map lower_char s"

text \<open>\<^verbatim>\<open>s.split('-')[0]\<close>: the part before the first hyphen (all of \<open>s\<close> without one).\<close>

definition split_hyphen_first :: "string \<Rightarrow> string" where
  "split_hyphen_first s = takeWhile (\<lambda>c. c \<noteq> CHR ''-'') s"

text \<open>\<^verbatim>\<open>s.zfill(width)\<close>: zeros go after a leading sign.\<close>

definition zfill :: "nat \<Rightarrow> string \<Rightarrow> string" where
  "zfill width s =
     (if width \<le> length s then s
      else (case s of
              [] \<Rightarrow> replicate width CHR ''0''
            | c # rest \<Rightarrow>
                if c = CHR ''+'' \<or> c = CHR ''-''
                then c # replicate (width - length s) CHR ''0'' @ rest
                else replicate (width - length s) CHR ''0'' @ s))"

section \<open>Postal-code normalisation (\<^verbatim>\<open>process_zip_codes\<close>)\<close>

text \<open>
  \<^verbatim>\<open>self.df['working_zip'].str.replace(r'[^\d-]', '', regex=True)\<close>: every character
  that is neither a digit nor a hyphen is dropped.
\<close>

definition replace_non_zip_chars :: "string \<Rightarrow> string" where
  "replace_non_zip_chars s = filter (\<lambda>c. isdigit_char c \<or> c = CHR ''-'') s"

text \<open>
  \<^verbatim>\<open>clean_zip\<close>, the function nested in \<^verbatim>\<open>process_zip_codes\<close>. Its argument is a cell of
  the \<^verbatim>\<open>working_zip\<close> column, a string (so \<^verbatim>\<open>pd.isna\<close> is false on it); \<open>None\<close> is
  Python's \<^verbatim>\<open>None\<close>.
\<close>

definition clean_zip :: "string \<Rightarrow> string option" where
  "clean_zip zip_code =
     (if str_lower zip_code \<in> set [''nan'', ''none'', ''''] then None
      else
        let zip_str = str_strip zip_code;
            zip_str = str_strip zip_str;
            zip_str = (if CHR ''-'' \<in> set zip_str then split_hyphen_first zip_str else zip_str)
        in if str_isdigit zip_str
           then (if length zip_str \<le> 5 then Some (zfill 5 zip_str)
                 else if length zip_str = 9 then Some (take 5 zip_str)
                 else None)
           else None)"

text \<open>
  The messages of \<^verbatim>\<open>diagnose_zip_issue\<close>, one constructor per return statement:
  "Missing/Empty zip code", "Empty zip code", "No digits in zip code",
  "Too few digits (n digits)", "Too many digits (n digits)",
  "Unusual zip length (n digits)", "Other zip format issue".
\<close>

datatype zip_issue =
    MissingEmptyZipCode
  | EmptyZipCode
  | NoDigitsInZipCode
  | TooFewDigits nat
  | TooManyDigits nat
  | UnusualZipLength nat
  | OtherZipFormatIssue

definition diagnose_zip_issue :: "string \<Rightarrow> string option \<Rightarrow> zip_issue" where
  "diagnose_zip_issue original_zip cleaned_zip =
     (if str_lower original_zip \<in> set [''nan'', ''none'', ''''] then MissingEmptyZipCode
      else
        let original_str = str_strip original_zip in
        if original_str = [] then EmptyZipCode
        else if \<not> list_ex py_isdigit_char original_str then NoDigitsInZipCode
        else
          let digits_only = filter py_isdigit_char original_str in
          if length digits_only < 5 then TooFewDigits (length digits_only)
          else if length digits_only > 9 then TooManyDigits (length digits_only)
          else if length digits_only \<in> set [6, 7, 8] then UnusualZipLength (length digits_only)
          else OtherZipFormatIssue)"

text \<open>
  A row of the table inside \<^verbatim>\<open>process_zip_codes\<close>: \<open>source_zip\<close> is the cell of the
  column named by \<^verbatim>\<open>zip_source\<close> after \<^verbatim>\<open>astype(str)\<close> (a missing cell reads
  \<^verbatim>\<open>'nan'\<close>), which the function leaves as loaded; \<open>working_zip\<close>, \<open>cleaned_zip\<close> and
  \<open>zip_issue\<close> are the columns it writes.
\<close>

record zip_row =
  source_zip :: string
  working_zip :: string
  cleaned_zip :: "string option"
  zip_issue :: "zip_issue option"

definition valid_mask :: "zip_row \<Rightarrow> bool" where
  "valid_mask r =
     (case cleaned_zip r of
        None \<Rightarrow> False
      | Some c \<Rightarrow> length c = 5 \<and> str_isdigit c)"

text \<open>
  \<^verbatim>\<open>process_zip_codes\<close> on the column of raw cells: the pair of the valid rows (the new
  \<^verbatim>\<open>self.df\<close>, whose \<^verbatim>\<open>zip\<close> is \<open>cleaned_zip\<close>) and the invalid rows with their
  diagnosis. The \<^verbatim>\<open>working_zip\<close> column is overwritten by the stripping pass before
  \<^verbatim>\<open>clean_zip\<close> and \<^verbatim>\<open>diagnose_zip_issue\<close> read it.
\<close>

definition process_zip_codes :: "string list \<Rightarrow> zip_row list \<times> zip_row list" where
  "process_zip_codes cells =
     (let df = map (\<lambda>cell. \<lparr>source_zip = cell, working_zip = cell,
                              cleaned_zip = None, zip_issue = None\<rparr>) cells;
          df = map (\<lambda>r. r\<lparr>working_zip := replace_non_zip_chars (working_zip r)\<rparr>) df;
          df = map (\<lambda>r. r\<lparr>cleaned_zip := clean_zip (working_zip r)\<rparr>) df;
          valid_df = filter valid_mask df;
          invalid_df = filter (\<lambda>r. \<not> valid_mask r) df;
          invalid_df = map (\<lambda>r. r\<lparr>zip_issue :=
                               Some (diagnose_zip_issue (working_zip r) (cleaned_zip r))\<rparr>)
                         invalid_df
      in (valid_df, invalid_df))"

text \<open>The strings that survive the stripping pass: digits and hyphens only.\<close>

definition zip_chars :: "string \<Rightarrow> bool" where
  "zip_chars s = list_all (\<lambda>c. isdigit_char c \<or> c = CHR ''-'') s"

text \<open>Strings of hyphens and of characters that \<^verbatim>\<open>isdigit()\<close> accepts.\<close>

definition digit_or_hyphen :: "string \<Rightarrow> bool" where
  "digit_or_hyphen s = list_all (\<lambda>c. py_isdigit_char c \<or> c = CHR ''-'') s"

section \<open>Distance calculator (\<^verbatim>\<open>haversine_distance\<close>)\<close>

text \<open>
  A double is modelled by the real number it stands for (\<^verbatim>\<open>float('inf')\<close> is added
  where the source uses it). The arithmetic on doubles is not the arithmetic on reals:
  every operation returns a double near the exact result, and which one depends on the
  platform. The operations the source uses are therefore parameters of the model,
  gathered in \<open>float_ops\<close>, and nothing is assumed of them. What is fixed is where the
  library raises: \<^verbatim>\<open>math.sqrt\<close> raises \<^verbatim>\<open>ValueError\<close> below 0 and \<^verbatim>\<open>math.asin\<close>
  outside [-1, 1].
\<close>

record float_ops =
  fl_radians :: "real \<Rightarrow> real"
  fl_sin :: "real \<Rightarrow> real"
  fl_cos :: "real \<Rightarrow> real"
  fl_sqrt :: "real \<Rightarrow> real"
  fl_asin :: "real \<Rightarrow> real"
  fl_square :: "real \<Rightarrow> real"
  fl_add :: "real \<Rightarrow> real \<Rightarrow> real"
  fl_sub :: "real \<Rightarrow> real \<Rightarrow> real"
  fl_mul :: "real \<Rightarrow> real \<Rightarrow> real"
  fl_div :: "real \<Rightarrow> real \<Rightarrow> real"

datatype py_error = ValueError | TypeError | AttributeError

definition math_sqrt :: "float_ops \<Rightarrow> real \<Rightarrow> py_error + real" where
  "math_sqrt ops x = (if x < 0 then Inl ValueError else Inr (fl_sqrt ops x))"

definition math_asin :: "float_ops \<Rightarrow> real \<Rightarrow> py_error + real" where
  "math_asin ops x = (if x < - 1 \<or> 1 < x then Inl ValueError else Inr (fl_asin ops x))"

text \<open>The intermediate value \<^verbatim>\<open>a\<close> of \<^verbatim>\<open>haversine_distance\<close>.\<close>

definition haversine_a :: "float_ops \<Rightarrow> real \<Rightarrow> real \<Rightarrow> real \<Rightarrow> real \<Rightarrow> real" where
  "haversine_a ops lat1 lon1 lat2 lon2 =
     (let lat1 = fl_radians ops lat1; lon1 = fl_radians ops lon1;
          lat2 = fl_radians ops lat2; lon2 = fl_radians ops lon2;
          dlat = fl_sub ops lat2 lat1;
          dlon = fl_sub ops lon2 lon1
      in fl_add ops
           (fl_square ops (fl_sin ops (fl_div ops dlat 2)))
           (fl_mul ops (fl_mul ops (fl_cos ops lat1) (fl_cos ops lat2))
              (fl_square ops (fl_sin ops (fl_div ops dlon 2)))))"

definition haversine_distance ::
  "float_ops \<Rightarrow> real \<Rightarrow> real \<Rightarrow> real \<Rightarrow> real \<Rightarrow> py_error + real" where
  "haversine_distance ops lat1 lon1 lat2 lon2 =
     (let a = haversine_a ops lat1 lon1 lat2 lon2 in
      case math_sqrt ops a of
        Inl e \<Rightarrow> Inl e
      | Inr s \<Rightarrow>
          (case math_asin ops s of
             Inl e \<Rightarrow> Inl e
           | Inr angle \<Rightarrow>
               let c = fl_mul ops 2 angle;
                   r = 3956
               in Inr (fl_mul ops c r)))"

text \<open>The arithmetic without rounding.\<close>

definition exact_ops :: float_ops where
  "exact_ops =
     \<lparr>fl_radians = (\<lambda>x. x * (pi / 180)), fl_sin = sin, fl_cos = cos, fl_sqrt = sqrt,
      fl_asin = arcsin, fl_square = (\<lambda>x. x\<^sup>2), fl_add = (+), fl_sub = (-),
      fl_mul = (*), fl_div = (/)\<rparr>"

section \<open>Coordinate resolver (\<^verbatim>\<open>get_zip_coordinates\<close>)\<close>

text \<open>
  The dictionary \<^verbatim>\<open>{'latitude': .., 'longitude': ..}\<close> the resolver returns and caches;
  a value is \<^verbatim>\<open>None\<close> after a failed lookup.
\<close>

datatype coords = Coords (coords_latitude: "real option") (coords_longitude: "real option")

abbreviation absent_coords :: coords where
  "absent_coords \<equiv> Coords None None"

text \<open>
  What \<^verbatim>\<open>requests.get(url, timeout=5)\<close> and the reading of its body can do: raise
  (timeout, connection error), or return a response with a status code whose body, once
  read as \<^verbatim>\<open>float(data['places'][0]['latitude'])\<close> and the same for the longitude, gives
  a pair (\<open>Some\<close>) or raises (\<open>None\<close>). The service is a parameter of every call, so two
  calls may be answered differently.
\<close>

datatype http_outcome =
    Response int "(real \<times> real) option"
  | RequestRaises

text \<open>
  A row of \<^verbatim>\<open>self.df\<close> after loading. \<open>distance_miles\<close> is the column a search writes
  before it reads it; \<open>Infinity\<close> is \<^verbatim>\<open>float('inf')\<close>.
\<close>

datatype distance = Finite real | Infinity

fun dist_le :: "distance \<Rightarrow> distance \<Rightarrow> bool" where
  "dist_le (Finite x) (Finite y) = (x \<le> y)"
| "dist_le (Finite x) Infinity = True"
| "dist_le Infinity (Finite y) = False"
| "dist_le Infinity Infinity = True"

record atm_row =
  terminal :: string
  zip_column :: string
  latitude :: "real option"
  longitude :: "real option"
  distance_miles :: distance

text \<open>What the tool writes to the page with \<^verbatim>\<open>st.error\<close>, \<^verbatim>\<open>st.warning\<close>, \<^verbatim>\<open>st.success\<close>.\<close>

datatype st_message =
    ErrorCouldNotFindCoordinates string
  | ErrorSearchingATMs py_error
  | ErrorEnterValidZip
  | SuccessFoundATMs nat real string
  | WarningNoATMsFound real string

text \<open>
  The object \<^verbatim>\<open>ATMSearchTool\<close>, with two fields the source does not have:
  \<open>requests_log\<close>, the URLs requested so far, and \<open>st_output\<close>, the messages written.
\<close>

record tool_state =
  df :: "atm_row list option"
  invalid_zips_df :: "zip_row list option"
  zip_coords_cache :: "string \<rightharpoonup> coords"
  requests_log :: "string list"
  st_output :: "st_message list"

text \<open>\<^verbatim>\<open>ATMSearchTool.__init__\<close>.\<close>

definition new_tool :: tool_state where
  "new_tool = \<lparr>df = None, invalid_zips_df = None, zip_coords_cache = Map.empty,
                requests_log = [], st_output = []\<rparr>"

definition cache_store :: "string \<Rightarrow> coords \<Rightarrow> tool_state \<Rightarrow> tool_state" where
  "cache_store zip_code c st = st\<lparr>zip_coords_cache := (zip_coords_cache st)(zip_code \<mapsto> c)\<rparr>"

definition get_zip_coordinates ::
  "(string \<Rightarrow> http_outcome) \<Rightarrow> string \<Rightarrow> tool_state \<Rightarrow> coords \<times> tool_state" where
  "get_zip_coordinates requests_get zip_code st =
     (case zip_coords_cache st zip_code of
        Some cached \<Rightarrow> (cached, st)
      | None \<Rightarrow>
          let url = ''https://api.zippopotam.us/us/'' @ zip_code;
              st = st\<lparr>requests_log := requests_log st @ [url]\<rparr>
          in (case requests_get url of
                Response status_code body \<Rightarrow>
                  if status_code = 200 then
                    (case body of
                       Some (lat, lon) \<Rightarrow>
                         let c = Coords (Some lat) (Some lon)
                         in (c, cache_store zip_code c st)
                     | None \<Rightarrow> (absent_coords, cache_store zip_code absent_coords st))
                  else (absent_coords, cache_store zip_code absent_coords st)
              | RequestRaises \<Rightarrow> (absent_coords, cache_store zip_code absent_coords st)))"

text \<open>
  A session's calls of the resolver, each with the service as it answers then. Every
  read and write of the cache in the source goes through \<^verbatim>\<open>get_zip_coordinates\<close>.
\<close>

fun resolve_calls :: "((string \<Rightarrow> http_outcome) \<times> string) list \<Rightarrow> tool_state \<Rightarrow> tool_state" where
  "resolve_calls [] st = st"
| "resolve_calls ((requests_get, zip_code) # calls) st =
     resolve_calls calls (snd (get_zip_coordinates requests_get zip_code st))"

section \<open>Radius search (\<^verbatim>\<open>search_atms_by_radius\<close>)\<close>

text \<open>
  \<^verbatim>\<open>Series.round(2)\<close>: the column is multiplied by 100, rounded to the nearest integer
  (the even one at a tie) and divided by 100, each step in double arithmetic; rounding a
  double to an integer is exact. \<^verbatim>\<open>inf\<close> stays \<^verbatim>\<open>inf\<close>.
\<close>

definition rint :: "real \<Rightarrow> real" where
  "rint x =
     (let f = \<lfloor>x\<rfloor>; d = x - of_int f
      in if d < 1 / 2 then of_int f
         else if 1 / 2 < d then of_int (f + 1)
         else if even f then of_int f else of_int (f + 1))"

definition round2 :: "float_ops \<Rightarrow> real \<Rightarrow> real" where
  "round2 ops x = fl_div ops (rint (fl_mul ops x 100)) 100"

fun round_distance :: "float_ops \<Rightarrow> distance \<Rightarrow> distance" where
  "round_distance ops (Finite x) = Finite (round2 ops x)"
| "round_distance ops Infinity = Infinity"

text \<open>
  The value \<^verbatim>\<open>search_atms_by_radius\<close> returns: \<^verbatim>\<open>pd.DataFrame()\<close>, a table with no
  column and no row, or the filtered and sorted copy of \<^verbatim>\<open>self.df\<close>, which has the
  columns of \<^verbatim>\<open>self.df\<close> whatever the number of its rows.
\<close>

datatype search_frame = EmptyFrame | Frame "atm_row list"

fun df_empty :: "search_frame \<Rightarrow> bool" where
  "df_empty EmptyFrame = True"
| "df_empty (Frame rows) = (rows = [])"

fun df_len :: "search_frame \<Rightarrow> nat" where
  "df_len EmptyFrame = 0"
| "df_len (Frame rows) = length rows"

definition st_write :: "st_message \<Rightarrow> tool_state \<Rightarrow> tool_state" where
  "st_write m st = st\<lparr>st_output := st_output st @ [m]\<rparr>"

text \<open>
  One pass of the loop over \<^verbatim>\<open>self.df.iterrows()\<close>: the distance of a row with both
  coordinates, \<^verbatim>\<open>float('inf')\<close> for a row without. \<^verbatim>\<open>math.radians(None)\<close> raises
  \<^verbatim>\<open>TypeError\<close>, and \<^verbatim>\<open>haversine_distance\<close> raises what the math library raises.
\<close>

definition row_distance ::
  "float_ops \<Rightarrow> real \<Rightarrow> real option \<Rightarrow> atm_row \<Rightarrow> py_error + distance" where
  "row_distance ops search_lat search_lon row =
     (case (latitude row, longitude row) of
        (Some row_lat, Some row_lon) \<Rightarrow>
          (case search_lon of
             None \<Rightarrow> Inl TypeError
           | Some search_lon \<Rightarrow>
               (case haversine_distance ops search_lat search_lon row_lat row_lon of
                  Inl e \<Rightarrow> Inl e
                | Inr miles \<Rightarrow> Inr (Finite miles)))
      | _ \<Rightarrow> Inr Infinity)"

fun distances_loop ::
  "float_ops \<Rightarrow> real \<Rightarrow> real option \<Rightarrow> atm_row list \<Rightarrow> py_error + distance list" where
  "distances_loop ops search_lat search_lon [] = Inr []"
| "distances_loop ops search_lat search_lon (row # rows) =
     (case row_distance ops search_lat search_lon row of
        Inl e \<Rightarrow> Inl e
      | Inr d \<Rightarrow>
          (case distances_loop ops search_lat search_lon rows of
             Inl e \<Rightarrow> Inl e
           | Inr distances \<Rightarrow> Inr (d # distances)))"

text \<open>
  \<^verbatim>\<open>filtered_df.sort_values('distance_miles')\<close> is pandas, not code of this repository:
  it is the parameter \<open>sort_values\<close> of the search, and nothing is assumed of it.
\<close>

definition search_atms_by_radius ::
  "float_ops \<Rightarrow> (atm_row list \<Rightarrow> atm_row list) \<Rightarrow> (string \<Rightarrow> http_outcome) \<Rightarrow> string \<Rightarrow> real
     \<Rightarrow> tool_state \<Rightarrow> search_frame \<times> tool_state" where
  "search_atms_by_radius ops sort_values requests_get search_zip radius_miles st =
     (let (search_coords, st) = get_zip_coordinates requests_get search_zip st in
      case coords_latitude search_coords of
        None \<Rightarrow> (EmptyFrame, st_write (ErrorCouldNotFindCoordinates search_zip) st)
      | Some search_lat \<Rightarrow>
          let search_lon = coords_longitude search_coords in
          (case df st of
             None \<Rightarrow> (EmptyFrame, st_write (ErrorSearchingATMs AttributeError) st)
           | Some rows \<Rightarrow>
               (case distances_loop ops search_lat search_lon rows of
                  Inl e \<Rightarrow> (EmptyFrame, st_write (ErrorSearchingATMs e) st)
                | Inr distances \<Rightarrow>
                    let rows = map2 (\<lambda>row d. row\<lparr>distance_miles := d\<rparr>) rows distances;
                        st = st\<lparr>df := Some rows\<rparr>;
                        filtered_df = filter (\<lambda>row. dist_le (distance_miles row) (Finite radius_miles)
                                                   \<and> distance_miles row \<noteq> Infinity) rows;
                        filtered_df = sort_values filtered_df;
                        filtered_df = map (\<lambda>row. row\<lparr>distance_miles :=
                                              round_distance ops (distance_miles row)\<rparr>) filtered_df
                    in (Frame filtered_df, st))))"

text \<open>
  The search handler of \<^verbatim>\<open>main\<close> (``Perform search''): the only place where the format
  of the target code is checked, and the only reader of the value the search returns.
\<close>

definition main_search ::
  "float_ops \<Rightarrow> (atm_row list \<Rightarrow> atm_row list) \<Rightarrow> (string \<Rightarrow> http_outcome) \<Rightarrow> bool \<Rightarrow> string
     \<Rightarrow> real \<Rightarrow> tool_state \<Rightarrow> tool_state" where
  "main_search ops sort_values requests_get search_button search_zip radius_miles st =
     (if search_button \<and> search_zip \<noteq> [] then
        if length search_zip = 5 \<and> str_isdigit search_zip then
          let (results, st) =
                search_atms_by_radius ops sort_values requests_get search_zip radius_miles st
          in if \<not> df_empty results
             then st_write (SuccessFoundATMs (df_len results) radius_miles search_zip) st
             else st_write (WarningNoATMsFound radius_miles search_zip) st
        else st_write ErrorEnterValidZip st
      else st)"

text \<open>
  A sorting function for the statements that need one: insertion sort by the distance
  column.
\<close>

fun insert_by_distance :: "atm_row \<Rightarrow> atm_row list \<Rightarrow> atm_row list" where
  "insert_by_distance x [] = [x]"
| "insert_by_distance x (y # ys) =
     (if dist_le (distance_miles x) (distance_miles y) then x # y # ys
      else y # insert_by_distance x ys)"

definition insertion_sort_by_distance :: "atm_row list \<Rightarrow> atm_row list" where
  "insertion_sort_by_distance rows = foldr insert_by_distance rows []"

section \<open>Dataset loader: the columns (\<^verbatim>\<open>load_excel_file\<close>)\<close>

definition column_mapping :: "(string \<times> string) list" where
  "column_mapping =
     [(''terminal'', ''terminal''),
      (''customer code'', ''customer_code''),
      (''ownership'', ''ownership''),
      (''location'', ''location''),
      (''address'', ''address''),
      (''city'', ''city''),
      (''st'', ''state''),
      (''zip'', ''zip''),
      (''zip long'', ''zip_long''),
      (''zip short'', ''zip_short''),
      (''dma code'', ''dma_code''),
      (''dma description'', ''dma_description''),
      (''make'', ''make''),
      (''model'', ''model''),
      (''parent chain business'', ''parent_chain_business''),
      (''naics category'', ''naics_category''),
      (''naics sector'', ''naics_sector''),
      (''lob'', ''lob''),
      (''cbm category'', ''cbm_category''),
      (''cbm level'', ''cbm_level''),
      (''avg transactions'', ''avg_transactions''),
      (''avg cash dispensed'', ''avg_cash_dispensed''),
      (''most recent month trx'', ''most_recent_month_trx''),
      (''most recent month cd'', ''most_recent_month_cd''),
      (''machine style code (3 digit code)'', ''machine_style_code''),
      (''display surfaces code (lcr)'', ''display_surfaces_code''),
      (''location type code (2 digits)'', ''location_type_code''),
      (''permanent or tenmp (perm 1, temp 0)'', ''permanent_or_temp''),
      (''inside or outside ( 1 inside, 0 outside)'', ''inside_or_outside'')]"

text \<open>\<^verbatim>\<open>df.rename(columns=column_mapping)\<close>: a name that is not a key stays.\<close>

definition rename_column :: "string \<Rightarrow> string" where
  "rename_column c = (case map_of column_mapping c of Some v \<Rightarrow> v | None \<Rightarrow> c)"

text \<open>
  \<^verbatim>\<open>self.df.columns\<close> after \<^verbatim>\<open>.str.strip().str.lower()\<close> and the renaming.
\<close>

definition mapped_columns :: "string list \<Rightarrow> string list" where
  "mapped_columns columns = map rename_column (map str_lower (map str_strip columns))"

definition required_cols :: "string list" where
  "required_cols = [''terminal'', ''location'', ''address'', ''city'', ''state'']"

text \<open>
  How \<^verbatim>\<open>load_excel_file\<close> goes on, for the header of the table read, up to its call of
  \<^verbatim>\<open>process_zip_codes\<close>: \<^verbatim>\<open>st.error(f"Missing required columns: {missing_cols}")\<close> and
  \<^verbatim>\<open>return False\<close>; \<^verbatim>\<open>st.error("No zip code column found ...")\<close> and \<^verbatim>\<open>return False\<close>;
  an exception, caught by the \<^verbatim>\<open>except\<close> clause, which writes "Error loading file: ..." and
  returns \<^verbatim>\<open>False\<close>; or the call \<^verbatim>\<open>self.process_zip_codes(zip_source)\<close> with the column
  chosen.
\<close>

datatype load_outcome =
    MissingRequiredColumns "string list"
  | NoZipColumn
  | ErrorLoadingFile py_error
  | ProcessZipCodes string

text \<open>
  \<^verbatim>\<open>self.df['working_zip'] = self.df[zip_source]\<close>: when two columns bear the name, the
  right-hand side is a table of two columns and the assignment raises \<^verbatim>\<open>ValueError\<close>.
\<close>

definition set_working_zip :: "string list \<Rightarrow> string \<Rightarrow> load_outcome" where
  "set_working_zip columns zip_source =
     (if 1 < count_list columns zip_source then ErrorLoadingFile ValueError
      else ProcessZipCodes zip_source)"

definition load_excel_file :: "string list \<Rightarrow> load_outcome" where
  "load_excel_file header =
     (let columns = mapped_columns header;
          missing_cols = filter (\<lambda>col. col \<notin> set columns) required_cols
      in if missing_cols \<noteq> [] then MissingRequiredColumns missing_cols
         else if ''zip_short'' \<in> set columns then set_working_zip columns ''zip_short''
         else if ''zip'' \<in> set columns then set_working_zip columns ''zip''
         else NoZipColumn)"

text \<open>
  The specification's wording, for comparison with the code: the header names that stand
  for a column (the synonym table lists "st" for state and "zip short" for the short
  postal column), and a table has a column when one of its header cells, trimmed and
  lowercased, is one of these names.
\<close>

definition header_names :: "string \<Rightarrow> string list" where
  "header_names column =
     (if column = ''state'' then [''st'', ''state'']
      else if column = ''zip_short'' then [''zip short'', ''zip_short'']
      else [column])"

definition has_column :: "string list \<Rightarrow> string \<Rightarrow> bool" where
  "has_column header column =
     list_ex (\<lambda>cell. str_lower (str_strip cell) \<in> set (header_names column)) header"

section \<open>Properties of the postal-code normaliser\<close>

lemma digit_class_table:
  "list_all (\<lambda>c. lower_char c = c \<and> \<not> isspace_char c \<and> c \<noteq> CHR ''+'' \<and> c \<noteq> CHR ''n'')
     (''0123456789-'' @ [CHR 0xB2, CHR 0xB3, CHR 0xB9])"
  by code_simp

lemma digit_class:
  assumes "py_isdigit_char c \<or> c = CHR ''-''"
  shows "lower_char c = c" and "\<not> isspace_char c" and "c \<noteq> CHR ''+''" and "c \<noteq> CHR ''n''"
proof -
  from assms have "c \<in> set (''0123456789-'' @ [CHR 0xB2, CHR 0xB3, CHR 0xB9])"
    by (auto simp: py_isdigit_char_def isdigit_char_def)
  with digit_class_table
  have "lower_char c = c \<and> \<not> isspace_char c \<and> c \<noteq> CHR ''+'' \<and> c \<noteq> CHR ''n''"
    unfolding list_all_iff by blast
  then show "lower_char c = c" and "\<not> isspace_char c" and "c \<noteq> CHR ''+''" and "c \<noteq> CHR ''n''"
    by simp_all
qed

lemma isdigit_py_isdigit: "isdigit_char c \<Longrightarrow> py_isdigit_char c"
  by (simp add: py_isdigit_char_def)

lemma py_isdigit_not_hyphen: "py_isdigit_char c \<Longrightarrow> c \<noteq> CHR ''-''"
  by (auto simp: py_isdigit_char_def isdigit_char_def)

lemma zip_chars_replace: "zip_chars (replace_non_zip_chars s)"
  by (simp add: zip_chars_def replace_non_zip_chars_def list_all_iff)

lemma zip_chars_digit_or_hyphen: "zip_chars s \<Longrightarrow> digit_or_hyphen s"
  by (auto simp: zip_chars_def digit_or_hyphen_def list_all_iff isdigit_py_isdigit)

lemma str_lower_digit_or_hyphen: "digit_or_hyphen s \<Longrightarrow> str_lower s = s"
  by (induction s) (auto simp: digit_or_hyphen_def str_lower_def digit_class(1))

lemma dropWhile_space_digit_or_hyphen: "digit_or_hyphen s \<Longrightarrow> dropWhile isspace_char s = s"
  by (cases s) (auto simp: digit_or_hyphen_def digit_class(2))

lemma digit_or_hyphen_rev: "digit_or_hyphen (rev s) = digit_or_hyphen s"
  by (simp add: digit_or_hyphen_def list_all_iff)

lemma str_strip_digit_or_hyphen: "digit_or_hyphen s \<Longrightarrow> str_strip s = s"
  by (simp add: str_strip_def dropWhile_space_digit_or_hyphen digit_or_hyphen_rev)

lemma digit_or_hyphen_not_word:
  assumes "digit_or_hyphen s"
  shows "s \<noteq> ''nan'' \<and> s \<noteq> ''none''"
proof -
  have "CHR ''n'' \<notin> set s"
    using assms digit_class(4) by (auto simp: digit_or_hyphen_def list_all_iff)
  then show ?thesis by auto
qed

lemma zfill_digits: "str_isdigit s \<Longrightarrow> zfill w s = replicate (w - length s) CHR ''0'' @ s"
  by (cases s) (auto simp: zfill_def str_isdigit_def digit_class(3) py_isdigit_not_hyphen)

lemma clean_zip_digit_or_hyphen:
  assumes "digit_or_hyphen s"
  shows "clean_zip s =
     (let h = split_hyphen_first s in
      if h = [] then None
      else if length h \<le> 5 then Some (replicate (5 - length h) CHR ''0'' @ h)
      else if length h = 9 then Some (take 5 h)
      else None)"
proof -
  define h where "h = split_hyphen_first s"
  have h_digit: "list_all py_isdigit_char h"
    using assms unfolding h_def digit_or_hyphen_def split_hyphen_first_def list_all_iff
    by (auto dest: set_takeWhileD)
  have head: "(if CHR ''-'' \<in> set s then split_hyphen_first s else s) = h"
  proof (cases "CHR ''-'' \<in> set s")
    case True
    then show ?thesis by (simp add: h_def)
  next
    case False
    then have "takeWhile (\<lambda>c. c \<noteq> CHR ''-'') s = s"
      by (intro takeWhile_eq_all_conv[THEN iffD2]) auto
    with False show ?thesis
      by (simp only: h_def split_hyphen_first_def if_False)
  qed
  have digit_iff: "str_isdigit h = (h \<noteq> [])"
    using h_digit by (simp add: str_isdigit_def)
  show ?thesis
  proof (cases "s = []")
    case True
    then show ?thesis by (simp add: clean_zip_def split_hyphen_first_def str_lower_def)
  next
    case False
    have "str_lower s = s"
      using assms by (rule str_lower_digit_or_hyphen)
    then have nonword: "(str_lower s \<in> set [''nan'', ''none'', []]) = False"
      using False digit_or_hyphen_not_word[OF assms] by simp
    have "clean_zip s =
        (if str_isdigit h
         then (if length h \<le> 5 then Some (zfill 5 h)
               else if length h = 9 then Some (take 5 h) else None)
         else None)"
      unfolding clean_zip_def
      by (simp only: nonword if_False Let_def str_strip_digit_or_hyphen[OF assms] head)
    also have "\<dots> = (if h = [] then None
      else if length h \<le> 5 then Some (replicate (5 - length h) CHR ''0'' @ h)
      else if length h = 9 then Some (take 5 h)
      else None)"
      using digit_iff zfill_digits[of h 5] by simp
    finally show ?thesis by (simp only: Let_def h_def)
  qed
qed

lemma count_digits_replace:
  "filter isdigit_char (replace_non_zip_chars s) = filter isdigit_char s"
  by (induction s) (auto simp: replace_non_zip_chars_def)

lemma filter_py_isdigit_zip_chars:
  "zip_chars w \<Longrightarrow> filter py_isdigit_char w = filter isdigit_char w"
  by (induction w) (auto simp: zip_chars_def isdigit_py_isdigit dest: py_isdigit_not_hyphen)

lemma diagnose_nine_digits:
  assumes "zip_chars w" and "length (filter isdigit_char w) = 9"
  shows "diagnose_zip_issue w c = OtherZipFormatIssue"
proof -
  have doh: "digit_or_hyphen w" using assms(1) by (rule zip_chars_digit_or_hyphen)
  have ne: "w \<noteq> []" using assms(2) by auto
  have lower: "str_lower w = w" using doh by (rule str_lower_digit_or_hyphen)
  have nine: "length (filter py_isdigit_char w) = 9"
    using assms by (simp add: filter_py_isdigit_zip_chars)
  have ex: "list_ex py_isdigit_char w"
  proof -
    have "filter py_isdigit_char w \<noteq> []" using nine by auto
    then show ?thesis by (auto simp: list_ex_iff filter_empty_conv)
  qed
  show ?thesis
    unfolding diagnose_zip_issue_def
    by (simp add: lower digit_or_hyphen_not_word[OF doh] Let_def
        str_strip_digit_or_hyphen[OF doh] ne ex nine)
qed

lemma valid_mask_cleaned:
  assumes "list_all py_isdigit_char h" and "h \<noteq> []"
  shows "length h \<le> 5 \<Longrightarrow> length (replicate (5 - length h) CHR ''0'' @ h) = 5
           \<and> str_isdigit (replicate (5 - length h) CHR ''0'' @ h)"
    and "length h = 9 \<Longrightarrow> length (take 5 h) = 5 \<and> str_isdigit (take 5 h)"
proof -
  have zero: "py_isdigit_char CHR ''0''" by (simp add: py_isdigit_char_def isdigit_char_def)
  show "length h \<le> 5 \<Longrightarrow> length (replicate (5 - length h) CHR ''0'' @ h) = 5
           \<and> str_isdigit (replicate (5 - length h) CHR ''0'' @ h)"
    using assms zero by (auto simp: str_isdigit_def list_all_iff)
  show "length h = 9 \<Longrightarrow> length (take 5 h) = 5 \<and> str_isdigit (take 5 h)"
    using assms by (auto simp: str_isdigit_def list_all_iff dest: in_set_takeD)
qed

lemma process_zip_codes_single:
  "process_zip_codes [raw] =
     (let w = replace_non_zip_chars raw;
          r = \<lparr>source_zip = raw, working_zip = w, cleaned_zip = clean_zip w, zip_issue = None\<rparr>
      in if valid_mask r then ([r], [])
         else ([], [r\<lparr>zip_issue := Some (diagnose_zip_issue w (clean_zip w))\<rparr>]))"
  by (simp add: process_zip_codes_def Let_def)

text \<open>
  Claim C9, as amended. A raw value with exactly 9 digits is accepted by the normaliser
  when 1 to 5, or all 9, of the digits stand before its first hyphen (so whenever it has
  no hyphen); otherwise it is rejected, reaches \<^verbatim>\<open>diagnose_zip_issue\<close>, and is classified
  "Other zip format issue".
\<close>

theorem nine_digits_partition:
  assumes "length (filter isdigit_char raw) = 9"
  shows "process_zip_codes [raw] =
     (let w = replace_non_zip_chars raw; h = split_hyphen_first w in
      if 1 \<le> length h \<and> length h \<le> 5 then
        ([\<lparr>source_zip = raw, working_zip = w,
           cleaned_zip = Some (replicate (5 - length h) CHR ''0'' @ h), zip_issue = None\<rparr>], [])
      else if length h = 9 then
        ([\<lparr>source_zip = raw, working_zip = w,
           cleaned_zip = Some (take 5 h), zip_issue = None\<rparr>], [])
      else
        ([], [\<lparr>source_zip = raw, working_zip = w,
               cleaned_zip = None, zip_issue = Some OtherZipFormatIssue\<rparr>]))"
proof -
  define w where "w = replace_non_zip_chars raw"
  define h where "h = split_hyphen_first w"
  have zc: "zip_chars w" unfolding w_def by (rule zip_chars_replace)
  have doh: "digit_or_hyphen w" using zc by (rule zip_chars_digit_or_hyphen)
  have nine: "length (filter isdigit_char w) = 9"
    using assms by (simp add: w_def count_digits_replace)
  have h_digit: "list_all py_isdigit_char h"
    using doh unfolding h_def digit_or_hyphen_def split_hyphen_first_def list_all_iff
    by (auto dest: set_takeWhileD)
  have cz: "clean_zip w =
     (if h = [] then None
      else if length h \<le> 5 then Some (replicate (5 - length h) CHR ''0'' @ h)
      else if length h = 9 then Some (take 5 h)
      else None)"
    using clean_zip_digit_or_hyphen[OF doh] by (simp add: Let_def h_def)
  have diag: "diagnose_zip_issue w c = OtherZipFormatIssue" for c
    using zc nine by (rule diagnose_nine_digits)
  consider (pad) "h \<noteq> []" "length h \<le> 5" | (nine) "length h = 9"
    | (bad) "h = [] \<or> (5 < length h \<and> length h \<noteq> 9)"
    by (cases "h = []"; cases "length h \<le> 5"; cases "length h = 9") auto
  then have "process_zip_codes [raw] =
      (if 1 \<le> length h \<and> length h \<le> 5 then
        ([\<lparr>source_zip = raw, working_zip = w,
           cleaned_zip = Some (replicate (5 - length h) CHR ''0'' @ h), zip_issue = None\<rparr>], [])
      else if length h = 9 then
        ([\<lparr>source_zip = raw, working_zip = w,
           cleaned_zip = Some (take 5 h), zip_issue = None\<rparr>], [])
      else
        ([], [\<lparr>source_zip = raw, working_zip = w,
               cleaned_zip = None, zip_issue = Some OtherZipFormatIssue\<rparr>]))"
  proof cases
    case pad
    then have "1 \<le> length h" by (cases h) auto
    with pad valid_mask_cleaned(1)[OF h_digit pad(1) pad(2)] show ?thesis
      by (simp add: process_zip_codes_single Let_def w_def[symmetric] cz valid_mask_def)
  next
    case nine
    then have "h \<noteq> []" by auto
    with nine valid_mask_cleaned(2)[OF h_digit this nine] show ?thesis
      by (simp add: process_zip_codes_single Let_def w_def[symmetric] cz valid_mask_def)
  next
    case bad
    then have "clean_zip w = None" by (auto simp: cz)
    moreover from bad have "\<not> (1 \<le> length h \<and> length h \<le> 5)" "length h \<noteq> 9" by auto
    ultimately show ?thesis
      by (simp add: process_zip_codes_single Let_def w_def[symmetric] valid_mask_def diag)
  qed
  then show ?thesis by (simp only: Let_def w_def h_def)
qed

theorem nine_digits_partition_witness:
  "length (filter isdigit_char ''123456789'') = 9 \<and>
   process_zip_codes [''123456789''] =
     ([\<lparr>source_zip = ''123456789'', working_zip = ''123456789'',
        cleaned_zip = Some ''12345'', zip_issue = None\<rparr>], [])"
proof -
  have h: "length (filter isdigit_char ''123456789'') = 9" by code_simp
  have w: "replace_non_zip_chars ''123456789'' = ''123456789''" by code_simp
  have s: "split_hyphen_first ''123456789'' = ''123456789''" by code_simp
  show ?thesis using h nine_digits_partition[OF h] by (simp add: w s Let_def)
qed

text \<open>
  Claim C9 as stated fails: \<^verbatim>\<open>1234567-89\<close> has 9 digits, is rejected by the normaliser
  (7 digits before the hyphen) and is passed to the diagnosis.
\<close>

theorem nine_digits_rejected_counterexample:
  "length (filter isdigit_char ''1234567-89'') = 9 \<and>
   process_zip_codes [''1234567-89''] =
     ([], [\<lparr>source_zip = ''1234567-89'', working_zip = ''1234567-89'',
            cleaned_zip = None, zip_issue = Some OtherZipFormatIssue\<rparr>])"
  by code_simp

text \<open>
  What the diagnosis receives from \<^verbatim>\<open>process_zip_codes\<close>: a raw value without digit or
  hyphen arrives as the empty string, and the branch "Empty zip code" is never taken on a
  string that went through the stripping pass.
\<close>

lemma process_zip_codes_nothing_left:
  assumes "replace_non_zip_chars raw = []"
  shows "process_zip_codes [raw] =
     ([], [\<lparr>source_zip = raw, working_zip = [], cleaned_zip = None,
            zip_issue = Some MissingEmptyZipCode\<rparr>])"
proof -
  have c: "clean_zip [] = None" by code_simp
  have d: "diagnose_zip_issue [] None = MissingEmptyZipCode" by code_simp
  show ?thesis
    by (simp add: process_zip_codes_single assms c d valid_mask_def Let_def)
qed

lemma diagnose_stripped_never_empty:
  assumes "zip_chars w"
  shows "diagnose_zip_issue w c \<noteq> EmptyZipCode"
proof (cases "w = []")
  case True
  have "diagnose_zip_issue [] c = MissingEmptyZipCode"
    by (simp add: diagnose_zip_issue_def str_lower_def)
  with True show ?thesis by simp
next
  case False
  have doh: "digit_or_hyphen w" using assms by (rule zip_chars_digit_or_hyphen)
  have lower: "str_lower w = w" using doh by (rule str_lower_digit_or_hyphen)
  show ?thesis
    unfolding diagnose_zip_issue_def
    by (simp add: lower digit_or_hyphen_not_word[OF doh] Let_def
        str_strip_digit_or_hyphen[OF doh] False)
qed

text \<open>
  Claim C5. The claim says that the raw value \<^verbatim>\<open>abc\<close> is diagnosed "No digits in zip
  code". \<^verbatim>\<open>diagnose_zip_issue\<close> does that on the raw value, but \<^verbatim>\<open>process_zip_codes\<close>
  hands it the \<^verbatim>\<open>working_zip\<close> column, which the stripping pass has overwritten with the
  empty string, and the diagnosis is "Missing/Empty zip code".
\<close>

theorem process_zip_codes_abc:
  "process_zip_codes [''abc''] =
     ([], [\<lparr>source_zip = ''abc'', working_zip = [],
            cleaned_zip = None, zip_issue = Some MissingEmptyZipCode\<rparr>])
   \<and> diagnose_zip_issue ''abc'' None = NoDigitsInZipCode"
  by code_simp

lemma str_isdigit_digit_or_hyphen: "str_isdigit z \<Longrightarrow> digit_or_hyphen z"
  by (simp add: str_isdigit_def digit_or_hyphen_def list_all_iff)

lemma split_hyphen_first_digits: "list_all py_isdigit_char a \<Longrightarrow> split_hyphen_first a = a"
  unfolding split_hyphen_first_def
  by (intro takeWhile_eq_all_conv[THEN iffD2]) (auto simp: list_all_iff dest: py_isdigit_not_hyphen)

lemma split_hyphen_first_append:
  "list_all py_isdigit_char a \<Longrightarrow> split_hyphen_first (a @ CHR ''-'' # b) = a"
  unfolding split_hyphen_first_def
  by (subst takeWhile_append2) (auto simp: list_all_iff dest: py_isdigit_not_hyphen)

text \<open>
  Claim C2. After the stripping pass, \<^verbatim>\<open>clean_zip\<close> maps an all-digit string (in the
  source's sense, \<^verbatim>\<open>isdigit()\<close>, so not the empty one) of length at most 5 to itself
  padded on the left with zeros to 5 characters, one of length 9 to its first 5 digits,
  and one of any other length to \<^verbatim>\<open>None\<close>; a string of 5 digits followed by a hyphen and
  anything the pass lets through (the ZIP+4 form) is mapped to the 5 digits.
\<close>

theorem clean_zip_digit_lengths:
  "(str_isdigit z \<longrightarrow>
      clean_zip z =
        (if length z \<le> 5 then Some (replicate (5 - length z) CHR ''0'' @ z)
         else if length z = 9 then Some (take 5 z)
         else None))
   \<and> (str_isdigit a \<and> length a = 5 \<and> zip_chars b \<longrightarrow>
        clean_zip (a @ CHR ''-'' # b) = Some a)"
proof (intro conjI impI)
  assume d: "str_isdigit z"
  then have "split_hyphen_first z = z"
    by (simp add: str_isdigit_def split_hyphen_first_digits)
  with d show "clean_zip z =
        (if length z \<le> 5 then Some (replicate (5 - length z) CHR ''0'' @ z)
         else if length z = 9 then Some (take 5 z)
         else None)"
    using clean_zip_digit_or_hyphen[OF str_isdigit_digit_or_hyphen[OF d]]
    by (simp add: Let_def str_isdigit_def)
next
  assume h: "str_isdigit a \<and> length a = 5 \<and> zip_chars b"
  then have "digit_or_hyphen b" by (simp add: zip_chars_digit_or_hyphen)
  with h have zc: "digit_or_hyphen (a @ CHR ''-'' # b)"
    by (auto simp: str_isdigit_def digit_or_hyphen_def list_all_iff)
  from h have "split_hyphen_first (a @ CHR ''-'' # b) = a"
    by (simp add: str_isdigit_def split_hyphen_first_append)
  with h show "clean_zip (a @ CHR ''-'' # b) = Some a"
    using clean_zip_digit_or_hyphen[OF zc] by (simp add: Let_def str_isdigit_def)
qed

theorem clean_zip_digit_lengths_witness:
  "str_isdigit ''123'' \<and> clean_zip ''123'' = Some ''00123''
   \<and> str_isdigit ''12345'' \<and> zip_chars ''6789'' \<and> clean_zip ''12345-6789'' = Some ''12345''"
proof -
  have d1: "str_isdigit ''123''" by code_simp
  have d2: "str_isdigit ''12345''" by code_simp
  have z2: "zip_chars ''6789''" by code_simp
  have r: "replicate (5 - length ''123'') CHR ''0'' @ ''123'' = ''00123''" by code_simp
  show ?thesis
    using d1 d2 z2 clean_zip_digit_lengths[of "''123''" "''12345''" "''6789''"]
    by (simp add: r numeral_2_eq_2)
qed

section \<open>The distance formula in exact arithmetic\<close>

lemma sin_half_squared: "(sin (x / 2))\<^sup>2 = (1 - cos x) / (2::real)"
  using cos_double_sin[of "x / 2"] by simp

lemma cos_half_squared: "(cos (x / 2))\<^sup>2 = (1 + cos x) / (2::real)"
  using cos_double_cos[of "x / 2"] by simp

text \<open>The intermediate value as a convex combination of two squares.\<close>

lemma haversine_a_convex:
  fixes p q l :: real
  shows "(sin ((q - p) / 2))\<^sup>2 + cos p * cos q * (sin (l / 2))\<^sup>2
       = (1 - (sin (l / 2))\<^sup>2) * (sin ((q - p) / 2))\<^sup>2
         + (sin (l / 2))\<^sup>2 * (cos ((p + q) / 2))\<^sup>2"
proof -
  have "(cos ((p + q) / 2))\<^sup>2 - (sin ((q - p) / 2))\<^sup>2 = cos p * cos q"
    by (simp add: sin_half_squared cos_half_squared cos_add cos_diff field_simps)
  then have "cos p * cos q * (sin (l / 2))\<^sup>2
      = (sin (l / 2))\<^sup>2 * (cos ((p + q) / 2))\<^sup>2 - (sin (l / 2))\<^sup>2 * (sin ((q - p) / 2))\<^sup>2"
    by (simp add: algebra_simps)
  then show ?thesis by (simp add: algebra_simps)
qed

text \<open>
  Without rounding the intermediate value lies in [0, 1] for all inputs, whatever the
  latitudes, and the library's domain errors cannot occur. This is a fact of the formula
  only: with the operations of double arithmetic the computed value can pass either end
  of the interval, and nothing in this theory says where.
\<close>

lemma haversine_a_bounds:
  "0 \<le> haversine_a exact_ops lat1 lon1 lat2 lon2 \<and> haversine_a exact_ops lat1 lon1 lat2 lon2 \<le> 1"
proof -
  define p where "p = lat1 * (pi / 180)"
  define q where "q = lat2 * (pi / 180)"
  define l where "l = lon2 * (pi / 180) - lon1 * (pi / 180)"
  define s where "s = (sin (l / 2))\<^sup>2"
  define u where "u = (sin ((q - p) / 2))\<^sup>2"
  define v where "v = (cos ((p + q) / 2))\<^sup>2"
  have "haversine_a exact_ops lat1 lon1 lat2 lon2
          = (sin ((q - p) / 2))\<^sup>2 + cos p * cos q * (sin (l / 2))\<^sup>2"
    by (simp add: haversine_a_def exact_ops_def Let_def p_def q_def l_def)
  then have a: "haversine_a exact_ops lat1 lon1 lat2 lon2 = (1 - s) * u + s * v"
    by (simp only: haversine_a_convex s_def u_def v_def)
  have s: "0 \<le> s" "s \<le> 1" by (simp_all add: s_def abs_square_le_1)
  have u: "0 \<le> u" "u \<le> 1" by (simp_all add: u_def abs_square_le_1)
  have v: "0 \<le> v" "v \<le> 1" by (simp_all add: v_def abs_square_le_1)
  have "0 \<le> (1 - s) * u + s * v" using s u v by simp
  moreover have "(1 - s) * u + s * v \<le> (1 - s) * 1 + s * 1"
    using s u v by (intro add_mono mult_left_mono) auto
  ultimately show ?thesis by (simp add: a)
qed

section \<open>Properties of the coordinate resolver\<close>


lemma get_zip_coordinates_hit:
  "zip_coords_cache st z = Some c \<Longrightarrow> get_zip_coordinates rg z st = (c, st)"
  by (simp add: get_zip_coordinates_def)

lemma get_zip_coordinates_stores:
  "zip_coords_cache (snd (get_zip_coordinates rg z st)) z = Some (fst (get_zip_coordinates rg z st))"
  by (auto simp: get_zip_coordinates_def cache_store_def Let_def
           split: option.splits http_outcome.splits prod.splits)

lemma get_zip_coordinates_keeps:
  "zip_coords_cache st z = Some c \<Longrightarrow>
   zip_coords_cache (snd (get_zip_coordinates rg z' st)) z = Some c"
  by (auto simp: get_zip_coordinates_def cache_store_def Let_def
           split: option.splits http_outcome.splits prod.splits)

lemma resolve_calls_keeps:
  "zip_coords_cache st z = Some c \<Longrightarrow> zip_coords_cache (resolve_calls calls st) z = Some c"
proof (induction calls arbitrary: st)
  case Nil
  then show ?case by simp
next
  case (Cons call calls)
  obtain rg z' where call: "call = (rg, z')" by (cases call)
  from Cons.prems have "zip_coords_cache (snd (get_zip_coordinates rg z' st)) z = Some c"
    by (rule get_zip_coordinates_keeps)
  then show ?case unfolding call by (simp add: Cons.IH)
qed

lemma get_zip_coordinates_failure:
  assumes "zip_coords_cache st z = None"
    and "\<forall>lat lon. rg (''https://api.zippopotam.us/us/'' @ z) \<noteq> Response 200 (Some (lat, lon))"
  shows "fst (get_zip_coordinates rg z st) = absent_coords"
  using assms
  by (auto simp: get_zip_coordinates_def cache_store_def Let_def
           split: option.splits http_outcome.splits prod.splits)

text \<open>
  Claim C3. After a call of \<^verbatim>\<open>get_zip_coordinates\<close> for a code, the value it returned is
  in the cache under that code; every later call for the code in the session, whatever
  was resolved in between and whatever the service would answer, returns that value and
  leaves the state as it is, so it requests nothing; and a lookup that fails (the request
  raises, the status is not 200, or the body cannot be read) returns, and so caches,
  the absent coordinates, which later calls return without a new request.
\<close>

theorem resolver_cache:
  "(let (r, st1) = get_zip_coordinates rg z st in
      zip_coords_cache st1 z = Some r
      \<and> (\<forall>calls rg'. let st2 = resolve_calls calls st1
                       in get_zip_coordinates rg' z st2 = (r, st2))
      \<and> (zip_coords_cache st z = None
           \<and> (\<forall>lat lon. rg (''https://api.zippopotam.us/us/'' @ z) \<noteq> Response 200 (Some (lat, lon)))
          \<longrightarrow> r = absent_coords))"
proof -
  obtain r st1 where g: "get_zip_coordinates rg z st = (r, st1)"
    by (cases "get_zip_coordinates rg z st")
  have stored: "zip_coords_cache st1 z = Some r"
    using get_zip_coordinates_stores[of rg z st] by (simp add: g)
  have later: "get_zip_coordinates rg' z (resolve_calls calls st1) = (r, resolve_calls calls st1)"
    for calls rg'
    by (intro get_zip_coordinates_hit resolve_calls_keeps stored)
  have failed: "r = absent_coords"
    if "zip_coords_cache st z = None
        \<and> (\<forall>lat lon. rg (''https://api.zippopotam.us/us/'' @ z) \<noteq> Response 200 (Some (lat, lon)))"
    using get_zip_coordinates_failure[of st z rg] that by (simp add: g)
  show ?thesis
    using stored later failed by (simp add: g Let_def)
qed

theorem resolver_cache_witness:
  "zip_coords_cache new_tool ''99999'' = None
   \<and> fst (get_zip_coordinates (\<lambda>url. RequestRaises) ''99999'' new_tool) = absent_coords
   \<and> get_zip_coordinates (\<lambda>url. Response 200 (Some (40, - 74))) ''99999''
        (snd (get_zip_coordinates (\<lambda>url. RequestRaises) ''99999'' new_tool))
      = (absent_coords, snd (get_zip_coordinates (\<lambda>url. RequestRaises) ''99999'' new_tool))
   \<and> requests_log (snd (get_zip_coordinates (\<lambda>url. Response 200 (Some (40, - 74))) ''99999''
        (snd (get_zip_coordinates (\<lambda>url. RequestRaises) ''99999'' new_tool))))
      = [''https://api.zippopotam.us/us/99999'']"
proof -
  have miss: "zip_coords_cache new_tool ''99999'' = None"
    by (simp add: new_tool_def)
  obtain r st1 where g: "get_zip_coordinates (\<lambda>url. RequestRaises) ''99999'' new_tool = (r, st1)"
    by (cases "get_zip_coordinates (\<lambda>url. RequestRaises) ''99999'' new_tool")
  have log: "requests_log st1 = [''https://api.zippopotam.us/us/99999'']"
    using g by (auto simp: get_zip_coordinates_def new_tool_def cache_store_def Let_def)
  from resolver_cache[of "\<lambda>url. RequestRaises" "''99999''" new_tool]
  have r: "r = absent_coords"
    and again: "\<And>calls rg'. get_zip_coordinates rg' ''99999'' (resolve_calls calls st1)
                  = (r, resolve_calls calls st1)"
    using miss by (simp_all add: g Let_def)
  from again[of "\<lambda>url. Response 200 (Some (40, - 74))" "[]"]
  show ?thesis using miss r log by (simp add: g)
qed

section \<open>Properties of the search and of its caller\<close>

lemma get_zip_coordinates_output: "st_output (snd (get_zip_coordinates rg z st)) = st_output st"
  by (auto simp: get_zip_coordinates_def cache_store_def Let_def
           split: option.splits http_outcome.splits prod.splits)

lemma get_zip_coordinates_requests_miss:
  "zip_coords_cache st z = None \<Longrightarrow>
   requests_log (snd (get_zip_coordinates rg z st))
     = requests_log st @ [''https://api.zippopotam.us/us/'' @ z]"
  by (auto simp: get_zip_coordinates_def cache_store_def Let_def
           split: option.splits http_outcome.splits prod.splits)

lemma search_requests_log:
  "requests_log (snd (search_atms_by_radius ops sv rg z radius st))
     = requests_log (snd (get_zip_coordinates rg z st))"
  by (cases "get_zip_coordinates rg z st")
     (auto simp: search_atms_by_radius_def st_write_def Let_def
           split: option.splits sum.splits)

lemma search_unresolved:
  "coords_latitude (fst (get_zip_coordinates rg z st)) = None \<Longrightarrow>
   search_atms_by_radius ops sv rg z radius st
     = (EmptyFrame, st_write (ErrorCouldNotFindCoordinates z) (snd (get_zip_coordinates rg z st)))"
  by (cases "get_zip_coordinates rg z st") (simp add: search_atms_by_radius_def)

lemma search_resolved:
  assumes "coords_latitude (fst (get_zip_coordinates rg z st)) \<noteq> None"
  shows "(\<exists>res. fst (search_atms_by_radius ops sv rg z radius st) = Frame res
            \<and> st_output (snd (search_atms_by_radius ops sv rg z radius st)) = st_output st)
         \<or> (\<exists>e. search_atms_by_radius ops sv rg z radius st
               = (EmptyFrame, st_write (ErrorSearchingATMs e) (snd (get_zip_coordinates rg z st))))"
proof -
  obtain c st1 where g: "get_zip_coordinates rg z st = (c, st1)"
    by (cases "get_zip_coordinates rg z st")
  from assms obtain lat where lat: "coords_latitude c = Some lat"
    by (auto simp: g)
  have o: "st_output st1 = st_output st"
    using get_zip_coordinates_output[of rg z st] by (simp add: g)
  show ?thesis
  proof (cases "df st1")
    case None
    then have "search_atms_by_radius ops sv rg z radius st
                 = (EmptyFrame, st_write (ErrorSearchingATMs AttributeError) st1)"
      by (simp add: search_atms_by_radius_def g lat)
    then show ?thesis
      by (auto simp: g)
  next
    case (Some rows)
    show ?thesis
    proof (cases "distances_loop ops lat (coords_longitude c) rows")
      case (Inl e)
      with Some have "search_atms_by_radius ops sv rg z radius st
                 = (EmptyFrame, st_write (ErrorSearchingATMs e) st1)"
        by (simp add: search_atms_by_radius_def g lat)
      then show ?thesis
        by (auto simp: g)
    next
      case (Inr distances)
      with Some show ?thesis
        by (simp add: search_atms_by_radius_def g lat Let_def o)
    qed
  qed
qed

text \<open>
  Claim C4, as amended. The check of the target code, \<^verbatim>\<open>len(search_zip) == 5 and
  search_zip.isdigit()\<close>, is made by the caller \<^verbatim>\<open>main\<close> only: for a target that fails it,
  \<^verbatim>\<open>main\<close> does not call the search; it writes "Please enter a valid 5-digit zip code"
  when the target is not empty and nothing when it is. \<^verbatim>\<open>search_atms_by_radius\<close> itself
  checks no format: whatever the target string, if it is not cached the search requests
  its coordinates from the service.
\<close>

theorem main_search_validates_target:
  "(\<not> (length search_zip = 5 \<and> str_isdigit search_zip) \<longrightarrow>
      main_search ops sv rg search_button search_zip radius st
        = (if search_button \<and> search_zip \<noteq> [] then st_write ErrorEnterValidZip st else st))
   \<and> (zip_coords_cache st search_zip = None \<longrightarrow>
        requests_log (snd (search_atms_by_radius ops sv rg search_zip radius st))
          = requests_log st @ [''https://api.zippopotam.us/us/'' @ search_zip])"
  by (simp add: main_search_def search_requests_log get_zip_coordinates_requests_miss)

theorem main_search_validates_target_witness:
  "\<not> (length ''1234'' = 5 \<and> str_isdigit ''1234'')
   \<and> main_search exact_ops insertion_sort_by_distance (\<lambda>url. Response 404 None) True ''1234'' 10
        new_tool
        = st_write ErrorEnterValidZip new_tool
   \<and> zip_coords_cache new_tool ''1234'' = None
   \<and> requests_log (snd (search_atms_by_radius exact_ops insertion_sort_by_distance
          (\<lambda>url. Response 404 None) ''1234'' 10 new_tool))
        = [''https://api.zippopotam.us/us/1234'']"
proof -
  have h: "\<not> (length ''1234'' = 5 \<and> str_isdigit ''1234'')" by simp
  have c: "zip_coords_cache new_tool ''1234'' = None" by (simp add: new_tool_def)
  have l: "requests_log new_tool = []" by (simp add: new_tool_def)
  show ?thesis
    using h c main_search_validates_target[of "''1234''" exact_ops insertion_sort_by_distance
        "\<lambda>url. Response 404 None" True 10 new_tool]
    by (simp add: l)
qed

text \<open>
  Claim C4 as stated fails: called with the 4-digit target \<^verbatim>\<open>1234\<close>, the search does not
  reject it. It requests the coordinates of \<^verbatim>\<open>1234\<close>, caches the failure and reports
  "Could not find coordinates", exactly as for the well-formed code \<^verbatim>\<open>99999\<close>.
\<close>

theorem search_accepts_invalid_target_counterexample:
  "\<not> (length ''1234'' = 5 \<and> str_isdigit ''1234'')
   \<and> search_atms_by_radius exact_ops insertion_sort_by_distance (\<lambda>url. Response 404 None)
        ''1234'' 10 (new_tool\<lparr>df := Some []\<rparr>)
      = (EmptyFrame,
         new_tool\<lparr>df := Some [],
                  zip_coords_cache := [''1234'' \<mapsto> absent_coords],
                  requests_log := [''https://api.zippopotam.us/us/1234''],
                  st_output := [ErrorCouldNotFindCoordinates ''1234'']\<rparr>)
   \<and> search_atms_by_radius exact_ops insertion_sort_by_distance (\<lambda>url. Response 404 None)
        ''99999'' 10 (new_tool\<lparr>df := Some []\<rparr>)
      = (EmptyFrame,
         new_tool\<lparr>df := Some [],
                  zip_coords_cache := [''99999'' \<mapsto> absent_coords],
                  requests_log := [''https://api.zippopotam.us/us/99999''],
                  st_output := [ErrorCouldNotFindCoordinates ''99999'']\<rparr>)"
  by (simp add: search_atms_by_radius_def get_zip_coordinates_def cache_store_def
        st_write_def new_tool_def Let_def)

text \<open>
  The check is Python's: a target of five superscript digits passes it, and \<^verbatim>\<open>main\<close>
  calls the search.
\<close>

lemma main_search_superscript_target:
  "requests_log (main_search exact_ops insertion_sort_by_distance (\<lambda>url. Response 404 None) True
      [CHR 0xB9, CHR 0xB2, CHR 0xB3, CHR 0xB2, CHR 0xB3] 10 new_tool)
     = [''https://api.zippopotam.us/us/'' @ [CHR 0xB9, CHR 0xB2, CHR 0xB3, CHR 0xB2, CHR 0xB3]]"
proof -
  let ?z = "[CHR 0xB9, CHR 0xB2, CHR 0xB3, CHR 0xB2, CHR 0xB3]"
  have d: "length ?z = 5 \<and> str_isdigit ?z" by code_simp
  have l: "requests_log (st_write m st) = requests_log st" for m st
    by (simp add: st_write_def)
  have "requests_log (main_search exact_ops insertion_sort_by_distance
          (\<lambda>url. Response 404 None) True ?z 10 new_tool)
        = requests_log (snd (search_atms_by_radius exact_ops insertion_sort_by_distance
            (\<lambda>url. Response 404 None) ?z 10 new_tool))"
    using d by (simp add: main_search_def l split: prod.splits)
  also have "\<dots> = requests_log new_tool @ [''https://api.zippopotam.us/us/'' @ ?z]"
    by (simp add: search_requests_log get_zip_coordinates_requests_miss new_tool_def)
  finally show ?thesis by (simp add: new_tool_def)
qed

text \<open>
  Claim C6. When the target resolves to absent coordinates the search fails in a way of
  its own: it writes "Could not find coordinates for zip code: ...", a message of no
  other path, and returns \<^verbatim>\<open>pd.DataFrame()\<close>, the table with no column. Every search
  whose target resolves either succeeds, returning the filtered copy of the table (which
  keeps its columns also when no row is within the radius) and writing nothing, or stops
  on an exception with the other message, "Error searching ATMs: ...". So the caller can
  tell the unresolvable target from a successful search with an empty result by the
  value returned, and from the other failure by the message.
\<close>

theorem search_unresolvable_target:
  "(coords_latitude (fst (get_zip_coordinates rg z st)) = None \<longrightarrow>
      search_atms_by_radius ops sv rg z radius st
        = (EmptyFrame, st_write (ErrorCouldNotFindCoordinates z) (snd (get_zip_coordinates rg z st))))
   \<and> (coords_latitude (fst (get_zip_coordinates rg z st)) \<noteq> None \<longrightarrow>
        (\<exists>res. fst (search_atms_by_radius ops sv rg z radius st) = Frame res
           \<and> st_output (snd (search_atms_by_radius ops sv rg z radius st)) = st_output st)
        \<or> (\<exists>e. search_atms_by_radius ops sv rg z radius st
              = (EmptyFrame, st_write (ErrorSearchingATMs e) (snd (get_zip_coordinates rg z st)))))"
  using search_unresolved[of rg z st ops sv radius] search_resolved[of rg z st ops sv radius]
  by blast

theorem search_unresolvable_target_witness:
  "coords_latitude (fst (get_zip_coordinates (\<lambda>url. RequestRaises) ''99999'' new_tool)) = None
   \<and> search_atms_by_radius exact_ops insertion_sort_by_distance (\<lambda>url. RequestRaises) ''99999'' 10
        new_tool
      = (EmptyFrame,
         new_tool\<lparr>zip_coords_cache := [''99999'' \<mapsto> absent_coords],
                  requests_log := [''https://api.zippopotam.us/us/99999''],
                  st_output := [ErrorCouldNotFindCoordinates ''99999'']\<rparr>)
   \<and> coords_latitude (fst (get_zip_coordinates (\<lambda>url. RequestRaises) ''10001''
        (new_tool\<lparr>df := Some [\<lparr>terminal = ''N'', zip_column = ''99999'', latitude = None,
                                  longitude = None, distance_miles = Infinity\<rparr>],
                  zip_coords_cache := [''10001'' \<mapsto> Coords (Some 40) (Some (- 74))]\<rparr>)))
        \<noteq> None
   \<and> fst (search_atms_by_radius exact_ops insertion_sort_by_distance (\<lambda>url. RequestRaises)
        ''10001'' 10
        (new_tool\<lparr>df := Some [\<lparr>terminal = ''N'', zip_column = ''99999'', latitude = None,
                                  longitude = None, distance_miles = Infinity\<rparr>],
                  zip_coords_cache := [''10001'' \<mapsto> Coords (Some 40) (Some (- 74))]\<rparr>))
      = Frame []"
proof -
  define n :: atm_row where
    "n = \<lparr>terminal = ''N'', zip_column = ''99999'', latitude = None,
          longitude = None, distance_miles = Infinity\<rparr>"
  define st where
    "st = new_tool\<lparr>df := Some [n],
            zip_coords_cache := [''10001'' \<mapsto> Coords (Some 40) (Some (- 74))]\<rparr>"
  let ?rg = "\<lambda>url::string. RequestRaises"
  have g9: "get_zip_coordinates ?rg ''99999'' new_tool
          = (absent_coords,
             new_tool\<lparr>zip_coords_cache := [''99999'' \<mapsto> absent_coords],
                      requests_log := [''https://api.zippopotam.us/us/99999'']\<rparr>)"
    by (simp add: get_zip_coordinates_def cache_store_def new_tool_def Let_def)
  have h9: "coords_latitude (fst (get_zip_coordinates ?rg ''99999'' new_tool)) = None"
    by (simp add: g9)
  have g1: "get_zip_coordinates ?rg ''10001'' st = (Coords (Some 40) (Some (- 74)), st)"
    by (simp add: get_zip_coordinates_def st_def)
  have h1: "coords_latitude (fst (get_zip_coordinates ?rg ''10001'' st)) \<noteq> None"
    by (simp add: g1)
  from search_unresolvable_target[of ?rg "''99999''" new_tool exact_ops
      insertion_sort_by_distance 10] h9
  have s9: "search_atms_by_radius exact_ops insertion_sort_by_distance ?rg ''99999'' 10 new_tool
      = (EmptyFrame,
         new_tool\<lparr>zip_coords_cache := [''99999'' \<mapsto> absent_coords],
                  requests_log := [''https://api.zippopotam.us/us/99999''],
                  st_output := [ErrorCouldNotFindCoordinates ''99999'']\<rparr>)"
    by (simp add: g9 st_write_def) (simp add: new_tool_def)
  have s1: "fst (search_atms_by_radius exact_ops insertion_sort_by_distance ?rg ''10001'' 10 st)
      = Frame []"
  proof -
    have d: "df st = Some [n]" by (simp add: st_def)
    have r: "row_distance exact_ops 40 (Some (- 74)) n = Inr Infinity"
      by (simp add: row_distance_def n_def)
    show ?thesis
      by (simp add: search_atms_by_radius_def g1 d r insertion_sort_by_distance_def Let_def)
  qed
  show ?thesis
    using h9 s9 h1 s1 unfolding st_def n_def by simp
qed

section \<open>Properties of the loader's column checks\<close>

lemma mapped_columns_mem:
  "(c \<in> set (mapped_columns header))
     = (\<exists>cell \<in> set header. rename_column (str_lower (str_strip cell)) = c)"
  by (auto simp: mapped_columns_def)

lemma column_mapping_distinct: "distinct (map fst column_mapping)"
  by code_simp

lemma rename_column_iff:
  "(rename_column n = c)
     = ((n, c) \<in> set column_mapping \<or> (n \<notin> fst ` set column_mapping \<and> n = c))"
proof (cases "map_of column_mapping n")
  case None
  then have "n \<notin> fst ` set column_mapping"
    by (simp add: map_of_eq_None_iff)
  moreover from this have "(n, c) \<notin> set column_mapping"
    by (metis fst_conv image_eqI)
  ultimately show ?thesis
    using None by (auto simp: rename_column_def)
next
  case (Some v)
  then have in_map: "(n, v) \<in> set column_mapping"
    by (rule map_of_SomeD)
  then have "n \<in> fst ` set column_mapping"
    by (metis fst_conv image_eqI)
  moreover have "((n, c) \<in> set column_mapping) = (map_of column_mapping n = Some c)"
    by (simp add: map_of_eq_Some_iff[OF column_mapping_distinct])
  then have "((n, c) \<in> set column_mapping) = (v = c)"
    using Some by simp
  ultimately show ?thesis
    using Some by (simp add: rename_column_def)
qed

lemma rename_column_sources:
  "(rename_column n = c)
     = (n \<in> set (map fst (filter (\<lambda>p. snd p = c) column_mapping)
                  @ (if c \<in> set (map fst column_mapping) then [] else [c])))"
  unfolding rename_column_iff by force

lemma header_names_table:
  "list_all (\<lambda>c. map fst (filter (\<lambda>p. snd p = c) column_mapping)
                   @ (if c \<in> set (map fst column_mapping) then [] else [c])
                 = header_names c)
     (required_cols @ [''zip_short'', ''zip''])"
  by code_simp

lemma rename_column_names:
  assumes "c \<in> set (required_cols @ [''zip_short'', ''zip''])"
  shows "(rename_column n = c) = (n \<in> set (header_names c))"
  using header_names_table assms unfolding list_all_iff rename_column_sources by metis

lemma has_column_mapped:
  assumes "c \<in> set (required_cols @ [''zip_short'', ''zip''])"
  shows "has_column header c = (c \<in> set (mapped_columns header))"
  by (simp add: has_column_def list_ex_iff mapped_columns_mem rename_column_names[OF assms])

lemma required_has_column:
  "c \<in> set required_cols \<Longrightarrow> has_column header c = (c \<in> set (mapped_columns header))"
  by (rule has_column_mapped) simp

lemma zip_has_column:
  "has_column header ''zip_short'' = (''zip_short'' \<in> set (mapped_columns header))"
  "has_column header ''zip'' = (''zip'' \<in> set (mapped_columns header))"
  by (rule has_column_mapped, simp)+

lemma missing_cols_has_column:
  "filter (\<lambda>col. col \<notin> set (mapped_columns header)) required_cols
     = filter (\<lambda>c. \<not> has_column header c) required_cols"
  by (rule filter_cong) (simp_all add: required_has_column)

text \<open>
  Claim C7. \<^verbatim>\<open>load_excel_file\<close> stops with "Missing required columns" exactly when the
  table lacks one of terminal, location, address, city, state after its header cells are
  trimmed and lowercased and the synonyms mapped, and the list it reports is the list of
  those it lacks; it stops with "No zip code column found" exactly when the table has all
  five and has neither the short postal column nor the general one.
\<close>

theorem load_excel_file_column_errors:
  "((\<exists>missing. load_excel_file header = MissingRequiredColumns missing)
      = (\<exists>c \<in> set required_cols. \<not> has_column header c))
   \<and> ((load_excel_file header = NoZipColumn)
      = ((\<forall>c \<in> set required_cols. has_column header c)
         \<and> \<not> has_column header ''zip_short''
         \<and> \<not> has_column header ''zip''))
   \<and> (load_excel_file header = MissingRequiredColumns missing \<longrightarrow>
        missing = filter (\<lambda>c. \<not> has_column header c) required_cols)"
proof -
  define m where "m = filter (\<lambda>c. \<not> has_column header c) required_cols"
  have l: "load_excel_file header =
      (if m \<noteq> [] then MissingRequiredColumns m
       else if has_column header ''zip_short''
         then set_working_zip (mapped_columns header) ''zip_short''
       else if has_column header ''zip''
         then set_working_zip (mapped_columns header) ''zip''
       else NoZipColumn)"
    by (simp add: load_excel_file_def Let_def missing_cols_has_column zip_has_column m_def)
  have e: "(m = []) = (\<forall>c \<in> set required_cols. has_column header c)"
    by (auto simp: m_def filter_empty_conv)
  have w: "set_working_zip cols z \<noteq> NoZipColumn"
       "set_working_zip cols z \<noteq> MissingRequiredColumns ms" for cols z ms
    by (simp_all add: set_working_zip_def)
  show ?thesis
    unfolding m_def[symmetric]
    using e w by (auto simp: l)
qed

theorem load_excel_file_column_errors_witness:
  "load_excel_file [''Terminal'', '' Location'', ''ADDRESS'', ''St'', ''Zip Short'']
     = MissingRequiredColumns [''city'']
   \<and> load_excel_file [''Terminal'', ''Location'', ''Address'', ''City'' @ [CHR 0xA0], ''St'',
                      ''Zip Long'']
     = NoZipColumn"
proof -
  let ?h1 = "[''Terminal'', '' Location'', ''ADDRESS'', ''St'', ''Zip Short'']"
  let ?h2 = "[''Terminal'', ''Location'', ''Address'', ''City'' @ [CHR 0xA0], ''St'',
             ''Zip Long'']"
  have m1: "filter (\<lambda>c. \<not> has_column ?h1 c) required_cols = [''city'']"
    by code_simp
  have "''city'' \<in> set required_cols \<and> \<not> has_column ?h1 ''city''"
    by code_simp
  then have "\<exists>c \<in> set required_cols. \<not> has_column ?h1 c"
    by blast
  with load_excel_file_column_errors[of ?h1]
  obtain missing where l1: "load_excel_file ?h1 = MissingRequiredColumns missing"
    by blast
  with load_excel_file_column_errors[of ?h1 missing] m1
  have r1: "load_excel_file ?h1 = MissingRequiredColumns [''city'']"
    by simp
  have "(\<forall>c \<in> set required_cols. has_column ?h2 c)
        \<and> \<not> has_column ?h2 ''zip_short''
        \<and> \<not> has_column ?h2 ''zip''"
    by code_simp
  with load_excel_file_column_errors[of ?h2]
  have r2: "load_excel_file ?h2 = NoZipColumn"
    by blast
  from r1 r2 show ?thesis by simp
qed

text \<open>
  A header cell is trimmed and lowercased as Python does it: "City" followed by a
  no-break space is the city column. Two header cells for the postal column chosen stop
  the loading on the exception of the assignment, with neither of the two messages.
\<close>

lemma load_excel_file_examples:
  "load_excel_file [''Terminal'', ''Location'', ''Address'', ''City'' @ [CHR 0xA0], ''ST'',
                    ''Zip Short''] = ProcessZipCodes ''zip_short''
   \<and> load_excel_file [''Terminal'', ''Location'', ''Address'', ''City'', ''State'', ''ZIP'']
       = ProcessZipCodes ''zip''
   \<and> load_excel_file [''Terminal'', ''Location'', ''Address'', ''City'', ''St'', ''Zip Short'',
                      ''zip_short''] = ErrorLoadingFile ValueError"
  by code_simp

end
